theory Spec2Isabelle
  imports Complex_Main "HOL-Library.AList"
begin

section \<open>Data model\<close>

text \<open>
  Python floats (prices, wall-clock seconds, delays) are identified with the real numbers
  they denote; the rounding of binary64 arithmetic is not part of the model. Python
  strings are character lists; the functions on them below are the ASCII fragment of the
  Python string methods.
\<close>

text \<open>
  \<^verbatim>\<open>app/core/config.py\<close>, class \<^verbatim>\<open>Settings\<close>: the options the modelled code reads.
  \<^verbatim>\<open>tg_retry_attempts\<close> is validated to lie between 0 and 10, so it is a natural number.
\<close>

record Settings =
  tv_webhook_secret :: string
  tg_retry_attempts :: nat
  tg_retry_delay :: real
  tg_retry_backoff :: real
  webhook_timeout :: real
  cache_ttl :: int

text \<open>\<^verbatim>\<open>app/models/webhook.py\<close>, class \<^verbatim>\<open>TradingViewWebhook\<close> (a validated payload).\<close>

record TradingViewWebhook =
  ticker :: string
  signal :: string
  price :: real
  time :: string
  interval :: "string option"
  chart :: "string option"

section \<open>Idempotency cache (\<^verbatim>\<open>app/api/webhook.py\<close>)\<close>

text \<open>
  \<^verbatim>\<open>_message_cache: Dict[str, float]\<close>. A Python dict keeps insertion order, so the
  cache is an association list with distinct keys: assignment to a known key keeps its
  place, assignment to a new key appends, \<^verbatim>\<open>pop\<close> deletes.
\<close>

type_synonym message_cache = "(string \<times> real) list"

text \<open>\<^verbatim>\<open>cache_key = f"{webhook_data.ticker}:{webhook_data.signal}:{webhook_data.time}"\<close>\<close>

definition cache_key :: "'a TradingViewWebhook_scheme \<Rightarrow> string" where
  "cache_key webhook_data = ticker webhook_data @ '':'' @ signal webhook_data @ '':'' @ time webhook_data"

text \<open>
  \<^verbatim>\<open>is_duplicate_message\<close>: the clock reading \<^verbatim>\<open>time.time()\<close> and the global cache are
  arguments, the updated cache is returned beside the result.
\<close>

definition is_duplicate_message ::
  "Settings \<Rightarrow> real \<Rightarrow> TradingViewWebhook \<Rightarrow> message_cache \<Rightarrow> bool \<times> message_cache" where
  "is_duplicate_message settings current_time webhook_data cache =
     (case map_of cache (cache_key webhook_data) of
        Some timestamp \<Rightarrow>
          if current_time - timestamp < real_of_int (cache_ttl settings)
          then (True, cache)
          else (False, AList.update (cache_key webhook_data) current_time
                         (AList.delete (cache_key webhook_data) cache))
      | None \<Rightarrow> (False, AList.update (cache_key webhook_data) current_time cache))"

text \<open>\<^verbatim>\<open>cleanup_cache\<close>: drops the entries older than the TTL.\<close>

definition cleanup_cache :: "Settings \<Rightarrow> real \<Rightarrow> message_cache \<Rightarrow> message_cache" where
  "cleanup_cache settings current_time cache =
     filter (\<lambda>(key, timestamp). \<not> current_time - timestamp > real_of_int (cache_ttl settings)) cache"

section \<open>Python string and number helpers\<close>

text \<open>\<^verbatim>\<open>str.upper\<close>, \<^verbatim>\<open>str.lower\<close>, \<^verbatim>\<open>str.isspace\<close> on ASCII characters.\<close>

definition upper_char :: "char \<Rightarrow> char" where
  "upper_char c =
     (let n = (of_char c :: nat) in if 97 \<le> n \<and> n \<le> 122 then char_of (n - 32) else c)"

definition lower_char :: "char \<Rightarrow> char" where
  "lower_char c =
     (let n = (of_char c :: nat) in if 65 \<le> n \<and> n \<le> 90 then char_of (n + 32) else c)"

definition is_space :: "char \<Rightarrow> bool" where
  "is_space c =
     (let n = (of_char c :: nat) in (9 \<le> n \<and> n \<le> 13) \<or> (28 \<le> n \<and> n \<le> 32))"

definition upper :: "string \<Rightarrow> string" where
  "upper v = map upper_char v"

definition lower :: "string \<Rightarrow> string" where
  "lower v = map lower_char v"

text \<open>\<^verbatim>\<open>str.strip()\<close>: leading and trailing whitespace removed.\<close>

definition strip :: "string \<Rightarrow> string" where
  "strip v = rev (dropWhile is_space (rev (dropWhile is_space v)))"

text \<open>\<^verbatim>\<open>str.capitalize()\<close>: first character upper case, the rest lower case.\<close>

definition capitalize :: "string \<Rightarrow> string" where
  "capitalize v = (case v of [] \<Rightarrow> [] | c # cs \<Rightarrow> upper_char c # map lower_char cs)"

text \<open>\<^verbatim>\<open>str.startswith(prefix)\<close>\<close>

definition startswith :: "string \<Rightarrow> string \<Rightarrow> bool" where
  "startswith v p = (take (length p) v = p)"

text \<open>
  \<^verbatim>\<open>round(v, ndigits)\<close> on a float: the exact value is rounded to \<^verbatim>\<open>ndigits\<close> decimal
  places, ties to the even neighbour. (Python then takes the binary64 value nearest to
  this decimal; zero stays zero and a positive decimal stays positive.)
\<close>

definition round_half_even :: "real \<Rightarrow> int" where
  "round_half_even x =
     (let f = \<lfloor>x\<rfloor>; d = x - of_int f
      in if d < 1 / 2 then f else if 1 / 2 < d then f + 1 else if even f then f else f + 1)"

definition py_round :: "real \<Rightarrow> nat \<Rightarrow> real" where
  "py_round v ndigits = of_int (round_half_even (v * 10 ^ ndigits)) / 10 ^ ndigits"

section \<open>Payload validator (\<^verbatim>\<open>app/models/webhook.py\<close>)\<close>

text \<open>
  The keyword arguments of \<^verbatim>\<open>TradingViewWebhook(**json_data)\<close>: each field is absent
  (\<open>None\<close>) or present with a value of its Python type. For the two optional fields
  \<open>None\<close> is also the JSON \<^verbatim>\<open>null\<close>. Pydantic's coercion of values of another type is
  outside the model.
\<close>

record webhook_input =
  in_ticker :: "string option"
  in_signal :: "string option"
  in_price :: "real option"
  in_time :: "string option"
  in_interval :: "string option"
  in_chart :: "string option"

text \<open>
  One entry of a pydantic \<^verbatim>\<open>ValidationError\<close>: a violated \<^verbatim>\<open>Field\<close> constraint or the
  \<^verbatim>\<open>ValueError\<close> of a \<^verbatim>\<open>field_validator\<close>.
\<close>

datatype field_error =
  Missing
  | StringTooShort
  | StringTooLong
  | StringPatternMismatch
  | GreaterThan
  | ValueError string

type_synonym validation_error = "(string \<times> field_error) list"

text \<open>
  The bodies of the \<^verbatim>\<open>field_validator\<close> methods. They are declared without a mode, so
  pydantic runs each one after the constraints of its \<^verbatim>\<open>Field\<close> have passed.
\<close>

definition validate_ticker :: "string \<Rightarrow> string" where
  "validate_ticker v = strip (upper v)"

definition validate_signal :: "string \<Rightarrow> string" where
  "validate_signal v = capitalize v"

definition validate_price :: "real \<Rightarrow> field_error + real" where
  "validate_price v =
     (if v \<le> 0 then Inl (ValueError ''Price must be positive'') else Inr (py_round v 8))"

definition validate_time :: "string \<Rightarrow> field_error + string" where
  "validate_time v =
     (if v = [] then Inl (ValueError ''Timestamp cannot be empty'') else Inr (strip v))"

definition validate_chart_url :: "string option \<Rightarrow> field_error + string option" where
  "validate_chart_url v =
     (case v of
        None \<Rightarrow> Inr None
      | Some u \<Rightarrow>
          if u \<noteq> [] \<and> \<not> (startswith u ''http://'' \<or> startswith u ''https://'')
          then Inl (ValueError ''Chart URL must be a valid HTTP/HTTPS URL'')
          else Inr (Some u))"

text \<open>
  The fields with their \<^verbatim>\<open>Field\<close> constraints:
  \<^verbatim>\<open>ticker: str = Field(..., min_length=1, max_length=20)\<close>,
  \<^verbatim>\<open>signal: str = Field(..., pattern="^(Buy|Sell)$")\<close> (the pattern accepts exactly the two
  strings \<^verbatim>\<open>Buy\<close> and \<^verbatim>\<open>Sell\<close>),
  \<^verbatim>\<open>price: float = Field(..., gt=0)\<close>, \<^verbatim>\<open>time: str = Field(...)\<close>, and the two optional
  fields with default \<^verbatim>\<open>None\<close>.
\<close>

definition ticker_field :: "string option \<Rightarrow> field_error + string" where
  "ticker_field x =
     (case x of
        None \<Rightarrow> Inl Missing
      | Some v \<Rightarrow>
          if length v < 1 then Inl StringTooShort
          else if 20 < length v then Inl StringTooLong
          else Inr (validate_ticker v))"

definition signal_field :: "string option \<Rightarrow> field_error + string" where
  "signal_field x =
     (case x of
        None \<Rightarrow> Inl Missing
      | Some v \<Rightarrow>
          if \<not> (v = ''Buy'' \<or> v = ''Sell'') then Inl StringPatternMismatch
          else Inr (validate_signal v))"

definition price_field :: "real option \<Rightarrow> field_error + real" where
  "price_field x =
     (case x of
        None \<Rightarrow> Inl Missing
      | Some v \<Rightarrow> if \<not> 0 < v then Inl GreaterThan else validate_price v)"

definition time_field :: "string option \<Rightarrow> field_error + string" where
  "time_field x = (case x of None \<Rightarrow> Inl Missing | Some v \<Rightarrow> validate_time v)"

definition interval_field :: "string option \<Rightarrow> field_error + string option" where
  "interval_field x = Inr x"

definition chart_field :: "string option \<Rightarrow> field_error + string option" where
  "chart_field x = validate_chart_url x"

definition field_errors :: "string \<Rightarrow> field_error + 'a \<Rightarrow> validation_error" where
  "field_errors name r = (case r of Inl e \<Rightarrow> [(name, e)] | Inr v \<Rightarrow> [])"

text \<open>
  \<^verbatim>\<open>TradingViewWebhook(**json_data)\<close>: every field is validated, the errors of all
  fields are collected, and the model is built when there is none.
\<close>

definition new_TradingViewWebhook :: "webhook_input \<Rightarrow> validation_error + TradingViewWebhook" where
  "new_TradingViewWebhook json_data =
     (case (ticker_field (in_ticker json_data), signal_field (in_signal json_data),
            price_field (in_price json_data), time_field (in_time json_data),
            interval_field (in_interval json_data), chart_field (in_chart json_data)) of
        (Inr t, Inr s, Inr p, Inr tm, Inr i, Inr c) \<Rightarrow>
          Inr \<lparr>ticker = t, signal = s, price = p, time = tm, interval = i, chart = c\<rparr>
      | (t, s, p, tm, i, c) \<Rightarrow>
          Inl (field_errors ''ticker'' t @ field_errors ''signal'' s @ field_errors ''price'' p @
               field_errors ''time'' tm @ field_errors ''interval'' i @ field_errors ''chart'' c))"

section \<open>Delivery client (\<^verbatim>\<open>app/services/telegram.py\<close>)\<close>

subsection \<open>Message formatter\<close>

text \<open>Truth value of an \<^verbatim>\<open>Optional[str]\<close>: neither \<^verbatim>\<open>None\<close> nor the empty string.\<close>

definition truthy :: "string option \<Rightarrow> bool" where
  "truthy x = (case x of None \<Rightarrow> False | Some v \<Rightarrow> v \<noteq> [])"

text \<open>\<^verbatim>\<open>sep.join(lines)\<close>\<close>

fun str_join :: "string \<Rightarrow> string list \<Rightarrow> string" where
  "str_join sep [] = []"
| "str_join sep [x] = x"
| "str_join sep (x # y # xs) = x @ sep @ str_join sep (y # xs)"

text \<open>The two emoji of the message, as their UTF-8 bytes (U+1F552 and U+1F4C8).\<close>

definition clock_emoji :: string where
  "clock_emoji = [CHR 0xF0, CHR 0x9F, CHR 0x95, CHR 0x92]"

definition chart_emoji :: string where
  "chart_emoji = [CHR 0xF0, CHR 0x9F, CHR 0x93, CHR 0x88]"

text \<open>
  \<^verbatim>\<open>TelegramService._format_message\<close>. The f-string renders the price with Python's
  conversion of a float to a string, which is the argument \<open>str_float\<close>.
\<close>

definition format_message :: "(real \<Rightarrow> string) \<Rightarrow> TradingViewWebhook \<Rightarrow> string" where
  "format_message str_float webhook_data =
     (let message_lines =
            [''<b>'' @ ticker webhook_data @ ''</b>'',
             ''Signal: <i>'' @ signal webhook_data @ ''</i>  Price: '' @ str_float (price webhook_data)];
          message_lines =
            (if truthy (interval webhook_data)
             then message_lines[0 := message_lines ! 0 @ ''  ('' @ the (interval webhook_data) @ '')'']
             else message_lines);
          message_lines = message_lines @ [clock_emoji @ '' '' @ time webhook_data];
          message_lines =
            (if truthy (chart webhook_data)
             then message_lines @
                    [chart_emoji @ '' <a href='' @ [CHR 0x27] @ the (chart webhook_data) @ [CHR 0x27] @ ''>Chart</a>'']
             else message_lines)
      in str_join [CHR 0x0A] message_lines)"

text \<open>
  The string of a float that is a multiple of \<open>10\<^sup>-\<^sup>8\<close>, as every rounded price is: the
  integer part, a point, and the fractional digits without trailing zeros (at least one
  digit). For values from \<open>10\<^sup>-\<^sup>4\<close> up to \<open>10\<^sup>7\<close> this is what Python prints, since a decimal
  of at most 15 significant digits is the shortest one that reads back as its float;
  outside that range Python prints more digits or an exponent.
\<close>

fun digits :: "nat \<Rightarrow> string" where
  "digits n =
     (if n < 10 then [''0123456789'' ! n] else digits (n div 10) @ [''0123456789'' ! (n mod 10)])"

declare digits.simps [simp del]

definition pad_frac :: "string \<Rightarrow> string" where
  "pad_frac ds = replicate (8 - length ds) CHR ''0'' @ ds"

definition strip_zeros :: "string \<Rightarrow> string" where
  "strip_zeros ds = rev (dropWhile (\<lambda>c. c = CHR ''0'') (rev ds))"

definition decimal8 :: "nat \<Rightarrow> string" where
  "decimal8 k =
     digits (k div 10 ^ 8) @ ''.'' @
     (let frac = strip_zeros (pad_frac (digits (k mod 10 ^ 8))) in if frac = [] then ''0'' else frac)"

definition float_str :: "real \<Rightarrow> string" where
  "float_str v = decimal8 (nat \<lfloor>v * 10 ^ 8\<rfloor>)"

text \<open>
  The layout of the specification, with the markup left open: the ticker in bold with
  the interval in parentheses when there is one, the signal in italics and the price, the
  clock and the time, and the chart as a link when there is one; joined by newlines.
\<close>

definition message_layout ::
  "(string \<Rightarrow> string) \<Rightarrow> (string \<Rightarrow> string) \<Rightarrow> (string \<Rightarrow> string) \<Rightarrow> (real \<Rightarrow> string) \<Rightarrow>
   TradingViewWebhook \<Rightarrow> string" where
  "message_layout bold italic link str_float w =
     str_join [CHR 0x0A]
       ([bold (ticker w) @ (case interval w of None \<Rightarrow> [] | Some i \<Rightarrow> if i = [] then [] else ''  ('' @ i @ '')'')] @
        [''Signal: '' @ italic (signal w) @ ''  Price: '' @ str_float (price w)] @
        [clock_emoji @ '' '' @ time w] @
        (case chart w of None \<Rightarrow> [] | Some c \<Rightarrow> if c = [] then [] else [chart_emoji @ '' '' @ link c]))"

definition html_bold :: "string \<Rightarrow> string" where
  "html_bold x = ''<b>'' @ x @ ''</b>''"

definition html_italic :: "string \<Rightarrow> string" where
  "html_italic x = ''<i>'' @ x @ ''</i>''"

definition html_link :: "string \<Rightarrow> string" where
  "html_link c = ''<a href='' @ [CHR 0x27] @ c @ [CHR 0x27] @ ''>Chart</a>''"

subsection \<open>Rate-limit gate\<close>

text \<open>
  The mutable fields of a \<^verbatim>\<open>TelegramService\<close>: \<^verbatim>\<open>_request_count\<close> and
  \<^verbatim>\<open>_rate_limit_reset_time\<close> (a \<^verbatim>\<open>datetime\<close>, here in seconds).
\<close>

record TelegramService =
  request_count :: nat
  rate_limit_reset_time :: "real option"

definition new_TelegramService :: TelegramService where
  "new_TelegramService = \<lparr>request_count = 0, rate_limit_reset_time = None\<rparr>"

text \<open>
  \<^verbatim>\<open>TelegramService._check_rate_limit\<close>. \<open>now\<close> is the reading of \<^verbatim>\<open>datetime.utcnow()\<close>
  on entry and \<open>woke\<close> the reading after the sleep, when there is one. The result is the
  time slept, if any, and the updated service.
\<close>

definition check_rate_limit :: "real \<Rightarrow> real \<Rightarrow> TelegramService \<Rightarrow> real option \<times> TelegramService" where
  "check_rate_limit now woke svc =
     (let (count, reset) =
            (if (case rate_limit_reset_time svc of None \<Rightarrow> True | Some r \<Rightarrow> r \<le> now)
             then (0, now + 1)
             else (request_count svc, the (rate_limit_reset_time svc)))
      in if 30 \<le> count
         then (let sleep_time = reset - now
               in if 0 < sleep_time
                  then (Some sleep_time, \<lparr>request_count = 0 + 1, rate_limit_reset_time = Some (woke + 1)\<rparr>)
                  else (None, \<lparr>request_count = count + 1, rate_limit_reset_time = Some reset\<rparr>))
         else (None, \<lparr>request_count = count + 1, rate_limit_reset_time = Some reset\<rparr>))"

text \<open>A run of calls, each with its two clock readings.\<close>

fun check_rate_limit_calls ::
  "(real \<times> real) list \<Rightarrow> TelegramService \<Rightarrow> real option list \<times> TelegramService" where
  "check_rate_limit_calls [] svc = ([], svc)"
| "check_rate_limit_calls ((now, woke) # calls) svc =
     (case check_rate_limit now woke svc of
        (slept, svc1) \<Rightarrow>
          (case check_rate_limit_calls calls svc1 of (sleeps, svc2) \<Rightarrow> (slept # sleeps, svc2)))"

subsection \<open>Sending with retries\<close>

text \<open>The JSON object of a reply, as far as the code reads it.\<close>

record api_response =
  ok :: bool
  description :: "string option"
  message_id :: "nat option"

text \<open>
  The \<^verbatim>\<open>Retry-After\<close> header of a reply: absent, an integer, or a string that
  \<^verbatim>\<open>int()\<close> rejects (with the message of its \<^verbatim>\<open>ValueError\<close>).
\<close>

datatype retry_after_header = NoRetryAfter | RetryAfter int | BadRetryAfter string

text \<open>
  An HTTP reply: \<^verbatim>\<open>status_code\<close>, \<^verbatim>\<open>json()\<close> (the message of the exception when the body
  is not JSON), the header, and \<^verbatim>\<open>text\<close>.
\<close>

record http_response =
  status_code :: nat
  body_json :: "string + api_response"
  retry_after :: retry_after_header
  body_text :: string

text \<open>What \<^verbatim>\<open>await self.client.post(...)\<close> does: it returns a reply or raises.\<close>

datatype post_result =
  Responded http_response
  | TimeoutException string
  | RequestError string
  | OtherException string

text \<open>The message of an exception, by the f-string that builds it.\<close>

datatype error_message =
  ApiError string
  | RateLimited int
  | HttpError nat string
  | TimeoutAfter nat
  | RequestErrorMessage string
  | UnexpectedError string
  | FailedAfter nat

datatype telegram_error = TelegramError error_message | TelegramRateLimitError error_message

text \<open>What the caller of a send can observe, in order.\<close>

datatype event =
  RateLimitSleep real
  | PostAttempt nat
  | RetryAfterSleep int
  | BackoffSleep real

text \<open>
  How the body of the loop leaves its \<^verbatim>\<open>try\<close> statement: by \<^verbatim>\<open>return\<close>, by an exception
  that leaves the function, by the sleep and \<^verbatim>\<open>continue\<close> of the 429 branch, or by a
  caught exception, after which control reaches the backoff below the handlers.
\<close>

datatype step = Return api_response | Raise telegram_error | SleepContinue int | Caught

definition attempt_step :: "Settings \<Rightarrow> nat \<Rightarrow> post_result \<Rightarrow> step" where
  "attempt_step settings attempt r =
     (let last = (int attempt = int (tg_retry_attempts settings) - 1) in
      case r of
        Responded response \<Rightarrow>
          if status_code response = 200 then
            (case body_json response of
               Inl e \<Rightarrow> if last then Raise (TelegramError (UnexpectedError e)) else Caught
             | Inr result \<Rightarrow>
                 if ok result then Return result
                 else Raise (TelegramError (ApiError
                        (case description result of None \<Rightarrow> ''Unknown error'' | Some d \<Rightarrow> d))))
          else if status_code response = 429 then
            (case retry_after response of
               BadRetryAfter e \<Rightarrow> if last then Raise (TelegramError (UnexpectedError e)) else Caught
             | NoRetryAfter \<Rightarrow>
                 if int attempt < int (tg_retry_attempts settings) - 1 then SleepContinue 1
                 else Raise (TelegramRateLimitError (RateLimited 1))
             | RetryAfter n \<Rightarrow>
                 if int attempt < int (tg_retry_attempts settings) - 1 then SleepContinue n
                 else Raise (TelegramRateLimitError (RateLimited n)))
          else Raise (TelegramError (HttpError (status_code response) (body_text response)))
      | TimeoutException e \<Rightarrow>
          if last then Raise (TelegramError (TimeoutAfter (tg_retry_attempts settings))) else Caught
      | RequestError e \<Rightarrow>
          if last then Raise (TelegramError (RequestErrorMessage e)) else Caught
      | OtherException e \<Rightarrow>
          if last then Raise (TelegramError (UnexpectedError e)) else Caught)"

definition after ::
  "event list \<Rightarrow> (telegram_error + api_response) \<times> TelegramService \<times> event list \<Rightarrow>
   (telegram_error + api_response) \<times> TelegramService \<times> event list" where
  "after evs r = (case r of (res, svc, evs') \<Rightarrow> (res, svc, evs @ evs'))"

text \<open>
  The loop \<^verbatim>\<open>for attempt in range(self.settings.tg_retry_attempts)\<close> of
  \<^verbatim>\<open>_send_message_with_retry\<close> over the attempts that remain. \<open>env attempt\<close> gives the two
  clock readings of the rate-limit gate and what the POST of that attempt does.
\<close>

fun send_attempts ::
  "Settings \<Rightarrow> (nat \<Rightarrow> real \<times> real \<times> post_result) \<Rightarrow> nat list \<Rightarrow> TelegramService \<Rightarrow>
   (telegram_error + api_response) \<times> TelegramService \<times> event list" where
  "send_attempts settings env [] svc =
     (Inl (TelegramError (FailedAfter (tg_retry_attempts settings))), svc, [])"
| "send_attempts settings env (attempt # rest) svc =
     (case env attempt of
        (now, woke, r) \<Rightarrow>
          (case check_rate_limit now woke svc of
             (slept, svc1) \<Rightarrow>
               (let pre = (case slept of None \<Rightarrow> [] | Some d \<Rightarrow> [RateLimitSleep d]) @ [PostAttempt attempt]
                in case attempt_step settings attempt r of
                     Return result \<Rightarrow> (Inr result, svc1, pre)
                   | Raise e \<Rightarrow> (Inl e, svc1, pre)
                   | SleepContinue n \<Rightarrow>
                       after (pre @ [RetryAfterSleep n]) (send_attempts settings env rest svc1)
                   | Caught \<Rightarrow>
                       if int attempt < int (tg_retry_attempts settings) - 1
                       then after (pre @ [BackoffSleep (tg_retry_delay settings * tg_retry_backoff settings ^ attempt)])
                              (send_attempts settings env rest svc1)
                       else after pre (send_attempts settings env rest svc1))))"

definition send_message_with_retry ::
  "Settings \<Rightarrow> (nat \<Rightarrow> real \<times> real \<times> post_result) \<Rightarrow> TelegramService \<Rightarrow>
   (telegram_error + api_response) \<times> TelegramService \<times> event list" where
  "send_message_with_retry settings env svc =
     send_attempts settings env [0..<tg_retry_attempts settings] svc"

text \<open>The events of a kind, in order.\<close>

definition backoff_delays :: "event list \<Rightarrow> real list" where
  "backoff_delays evs = concat (map (\<lambda>e. case e of BackoffSleep d \<Rightarrow> [d] | _ \<Rightarrow> []) evs)"

definition post_attempts :: "event list \<Rightarrow> nat list" where
  "post_attempts evs = concat (map (\<lambda>e. case e of PostAttempt a \<Rightarrow> [a] | _ \<Rightarrow> []) evs)"

text \<open>
  A transient transport failure: the POST raises \<^verbatim>\<open>httpx.TimeoutException\<close> or another
  \<^verbatim>\<open>httpx.RequestError\<close> (a connection error).
\<close>

definition transient :: "post_result \<Rightarrow> bool" where
  "transient r = (case r of TimeoutException e \<Rightarrow> True | RequestError e \<Rightarrow> True | _ \<Rightarrow> False)"

text \<open>A successful POST: status 200 and a JSON body whose \<^verbatim>\<open>ok\<close> is true.\<close>

definition delivered :: "post_result \<Rightarrow> api_response \<Rightarrow> bool" where
  "delivered r result =
     (case r of
        Responded response \<Rightarrow> status_code response = 200 \<and> body_json response = Inr result \<and> ok result
      | _ \<Rightarrow> False)"

text \<open>The events of one attempt before its outcome is known: the wait of the gate, if any, and the POST.\<close>

definition attempt_prefix :: "(nat \<Rightarrow> real \<times> real \<times> post_result) \<Rightarrow> nat \<Rightarrow> TelegramService \<Rightarrow> event list" where
  "attempt_prefix env attempt svc =
     (case fst (check_rate_limit (fst (env attempt)) (fst (snd (env attempt))) svc) of
        None \<Rightarrow> []
      | Some d \<Rightarrow> [RateLimitSleep d]) @ [PostAttempt attempt]"

definition after_gate :: "(nat \<Rightarrow> real \<times> real \<times> post_result) \<Rightarrow> nat \<Rightarrow> TelegramService \<Rightarrow> TelegramService" where
  "after_gate env attempt svc = snd (check_rate_limit (fst (env attempt)) (fst (snd (env attempt))) svc)"

section \<open>Signature verifier (\<^verbatim>\<open>app/core/security.py\<close>)\<close>

datatype signature_error = SignatureError string

text \<open>
  \<^verbatim>\<open>hmac.compare_digest\<close> on two strings: a \<^verbatim>\<open>TypeError\<close> when one of them has a
  character outside ASCII, else whether they are equal.
\<close>

definition compare_digest :: "string \<Rightarrow> string \<Rightarrow> string + bool" where
  "compare_digest a b =
     (if list_ex (\<lambda>c. 127 < (of_char c :: nat)) (a @ b)
      then Inl ''comparing strings with non-ASCII characters is not supported''
      else Inr (a = b))"

text \<open>
  \<^verbatim>\<open>verify_webhook_signature\<close>. The argument \<open>hexdigest\<close> stands for
  \<^verbatim>\<open>hmac.new(key, payload, hashlib.sha256).hexdigest()\<close>. An exception is \<open>Inl\<close>, a
  returned boolean is \<open>Inr\<close>.
\<close>

definition verify_webhook_signature ::
  "(string \<Rightarrow> string \<Rightarrow> string) \<Rightarrow> Settings \<Rightarrow> string \<Rightarrow> string \<Rightarrow> signature_error + bool" where
  "verify_webhook_signature hexdigest settings payload signature =
     (if signature = [] then Inl (SignatureError ''Missing signature'')
      else if tv_webhook_secret settings = [] then Inl (SignatureError ''Webhook secret not configured'')
      else
        (let expected_signature = hexdigest (tv_webhook_secret settings) payload
         in case compare_digest expected_signature signature of
              Inl e \<Rightarrow> Inl (SignatureError (''Signature validation error: '' @ e))
            | Inr is_valid \<Rightarrow>
                if \<not> is_valid then Inl (SignatureError ''Invalid signature'') else Inr True))"

section \<open>Request handler (\<^verbatim>\<open>app/api/webhook.py\<close>, \<^verbatim>\<open>app/main.py\<close>)\<close>

text \<open>
  What \<^verbatim>\<open>await request.json()\<close> gives: an exception, a JSON value that is not an object
  (for which \<^verbatim>\<open>TradingViewWebhook(**json_data)\<close> raises a \<^verbatim>\<open>TypeError\<close>), or an object.
\<close>

datatype json_data = InvalidJson | NotAMapping | JsonObject webhook_input

text \<open>
  A request: method, URL, headers in the order received, the raw body and the result of
  parsing it.
\<close>

record Request =
  req_method :: string
  req_url :: string
  req_headers :: "(string \<times> string) list"
  req_body :: string
  req_json :: json_data

text \<open>\<^verbatim>\<open>request.headers.get(name)\<close>: the first header of that name, compared without case.\<close>

definition headers_get :: "(string \<times> string) list \<Rightarrow> string \<Rightarrow> string option" where
  "headers_get hs name = map_option snd (find (\<lambda>(k, v). lower k = lower name) hs)"

definition headers_get_default :: "(string \<times> string) list \<Rightarrow> string \<Rightarrow> string \<Rightarrow> string" where
  "headers_get_default hs name dflt =
     (case headers_get hs name of None \<Rightarrow> dflt | Some v \<Rightarrow> v)"

datatype validation_failure = NotMapping | FieldErrors validation_error

datatype log_entry =
  ReceivedWebhookRequest string string "string option" "string option"
  | SignatureValidationDisabled bool nat
  | FailedToParseJson
  | ValidationFailed validation_failure
  | ProcessingTooLong real
  | WebhookAccepted string string real real
  | RequestCompleted string string nat real string

text \<open>\<^verbatim>\<open>WebhookResponse\<close> of \<^verbatim>\<open>app/models/webhook.py\<close>.\<close>

record WebhookResponse =
  status :: string
  message :: "string option"
  request_id :: "string option"
  timestamp :: "real option"

datatype detail = InvalidJsonPayload | InvalidWebhookData validation_failure

text \<open>The handler returns a \<^verbatim>\<open>JSONResponse\<close> or raises an \<^verbatim>\<open>HTTPException\<close>.\<close>

datatype http_result =
  JSONResponse nat WebhookResponse "(string \<times> string) list"
  | HTTPException nat detail

datatype background_task = ProcessWebhookBackground TradingViewWebhook string | CleanupCache

text \<open>The clock readings of one request, in the order in which they are taken.\<close>

record clock_readings =
  middleware_start :: real
  start_time :: real
  check_time :: real
  end_time :: real
  response_time :: real
  middleware_end :: real

text \<open>
  \<^verbatim>\<open>receive_tradingview_webhook\<close>. \<open>context_id\<close> is the request id that
  \<^verbatim>\<open>get_request_id()\<close> finds in the context. The result is the response, the background
  tasks that were scheduled and the log entries that were written.
\<close>

definition receive_tradingview_webhook ::
  "Settings \<Rightarrow> string \<Rightarrow> clock_readings \<Rightarrow> message_cache \<Rightarrow> Request \<Rightarrow>
   http_result \<times> background_task list \<times> log_entry list" where
  "receive_tradingview_webhook settings context_id clock cache request =
     (let signature = headers_get_default (req_headers request) ''X-Signature'' [];
          log0 =
            [ReceivedWebhookRequest (req_method request) (req_url request)
               (headers_get (req_headers request) ''user-agent'')
               (headers_get (req_headers request) ''content-length''),
             SignatureValidationDisabled (signature \<noteq> []) (length (req_body request))]
      in case req_json request of
           InvalidJson \<Rightarrow> (HTTPException 400 InvalidJsonPayload, [], log0 @ [FailedToParseJson])
         | NotAMapping \<Rightarrow>
             (HTTPException 422 (InvalidWebhookData NotMapping), [], log0 @ [ValidationFailed NotMapping])
         | JsonObject data \<Rightarrow>
             (case new_TradingViewWebhook data of
                Inl errors \<Rightarrow>
                  (HTTPException 422 (InvalidWebhookData (FieldErrors errors)), [],
                   log0 @ [ValidationFailed (FieldErrors errors)])
              | Inr webhook_data \<Rightarrow>
                  (let elapsed_time = check_time clock - start_time clock;
                       log1 = (if webhook_timeout settings < elapsed_time
                               then [ProcessingTooLong (elapsed_time * 1000)] else []);
                       tasks = [ProcessWebhookBackground webhook_data context_id] @
                               (if 100 < length cache then [CleanupCache] else []);
                       processing_time_ms = (end_time clock - start_time clock) * 1000;
                       log2 = [WebhookAccepted (ticker webhook_data) (signal webhook_data)
                                 (price webhook_data) processing_time_ms];
                       response = \<lparr>status = ''accepted'',
                                   message = Some ''Webhook received and processing'',
                                   request_id = Some context_id,
                                   timestamp = Some (response_time clock)\<rparr>
                   in (JSONResponse 202 response [(''X-Request-ID'', context_id)],
                       tasks, log0 @ log1 @ log2))))"

text \<open>The status code of a result (FastAPI answers an \<^verbatim>\<open>HTTPException\<close> with its status).\<close>

definition result_status :: "http_result \<Rightarrow> nat" where
  "result_status r = (case r of JSONResponse code content hs \<Rightarrow> code | HTTPException code d \<Rightarrow> code)"

text \<open>
  \<^verbatim>\<open>request_middleware\<close> of \<^verbatim>\<open>create_app\<close> around the handler: the request id is the
  header \<^verbatim>\<open>X-Request-ID\<close> or else a fresh UUID, \<open>uuid4\<close>; it is put into the context and
  into the response headers, beside the processing time.
\<close>

definition request_middleware ::
  "Settings \<Rightarrow> string \<Rightarrow> clock_readings \<Rightarrow> message_cache \<Rightarrow> Request \<Rightarrow>
   (http_result \<times> string \<times> real) \<times> background_task list \<times> log_entry list" where
  "request_middleware settings uuid4 clock cache request =
     (let context_id = headers_get_default (req_headers request) ''X-Request-ID'' uuid4
      in case receive_tradingview_webhook settings context_id clock cache request of
           (response, tasks, entries) \<Rightarrow>
             (let process_time = middleware_end clock - middleware_start clock
              in ((response, context_id, process_time), tasks,
                  entries @ [RequestCompleted (req_method request) (req_url request) (result_status response)
                           (process_time * 1000) context_id])))"

text \<open>The headers of a request other than \<^verbatim>\<open>X-Signature\<close>.\<close>

definition without_signature :: "(string \<times> string) list \<Rightarrow> (string \<times> string) list" where
  "without_signature hs = filter (\<lambda>(k, v). lower k \<noteq> lower ''X-Signature'') hs"

section \<open>Example values\<close>

text \<open>The defaults of \<^verbatim>\<open>Settings\<close>, with a sample secret.\<close>

definition default_settings :: Settings where
  "default_settings =
     \<lparr>tv_webhook_secret = ''test_secret_key_for_hmac_validation'', tg_retry_attempts = 3,
      tg_retry_delay = 1, tg_retry_backoff = 2, webhook_timeout = 15 / 100, cache_ttl = 300\<rparr>"

definition sample_webhook :: TradingViewWebhook where
  "sample_webhook =
     \<lparr>ticker = ''BTCUSDT'', signal = ''Buy'', price = 4500012345679 / 10 ^ 8,
      time = ''2025-01-15T10:30:00Z'', interval = Some ''1h'', chart = None\<rparr>"

text \<open>The payload of the end-to-end scenario, as it arrives.\<close>

definition scenario_input :: webhook_input where
  "scenario_input =
     \<lparr>in_ticker = Some ''btcusdt'', in_signal = Some ''buy'', in_price = Some (45000123456789 / 10 ^ 9),
      in_time = Some ''2025-01-15T10:30:00Z'', in_interval = Some ''1h'', in_chart = None\<rparr>"

text \<open>
  Two inputs with a positive price and a one-character ticker: the price \<open>2\<^sup>-\<^sup>3\<^sup>0\<close> (the float
  \<^verbatim>\<open>9.313225746154785e-10\<close>) and the ticker that is one space.
\<close>

definition tiny_price_input :: webhook_input where
  "tiny_price_input =
     \<lparr>in_ticker = Some ''BTCUSDT'', in_signal = Some ''Buy'', in_price = Some (1 / 2 ^ 30),
      in_time = Some ''2025-01-15T10:30:00Z'', in_interval = None, in_chart = None\<rparr>"

definition blank_ticker_input :: webhook_input where
  "blank_ticker_input =
     \<lparr>in_ticker = Some '' '', in_signal = Some ''Sell'', in_price = Some 45000,
      in_time = Some ''2025-01-15T10:30:00Z'', in_interval = None, in_chart = None\<rparr>"

text \<open>Replies and environments for the delivery client.\<close>

definition ok_response :: http_response where
  "ok_response =
     \<lparr>status_code = 200,
      body_json = Inr \<lparr>ok = True, description = None, message_id = Some 123\<rparr>,
      retry_after = NoRetryAfter, body_text = ''{ok: true, result: {message_id: 123}}''\<rparr>"

definition server_error_response :: http_response where
  "server_error_response =
     \<lparr>status_code = 500, body_json = Inl ''Expecting value'', retry_after = NoRetryAfter,
      body_text = ''Internal Server Error''\<rparr>"

definition fails_twice_env :: "nat \<Rightarrow> real \<times> real \<times> post_result" where
  "fails_twice_env attempt =
     (if attempt = 0 then (0, 0, TimeoutException ''timed out'')
      else if attempt = 1 then (11, 11, RequestError ''connection refused'')
      else (13, 13, Responded ok_response))"

definition always_fails_env :: "nat \<Rightarrow> real \<times> real \<times> post_result" where
  "always_fails_env attempt = (real attempt * 11, real attempt * 11, TimeoutException ''timed out'')"

definition server_error_env :: "nat \<Rightarrow> real \<times> real \<times> post_result" where
  "server_error_env attempt =
     (if attempt = 0 then (0, 0, Responded server_error_response) else (1, 1, Responded ok_response))"

text \<open>A request of the end-to-end scenario with the signal capitalized, and clock readings for it.\<close>

definition sample_request :: Request where
  "sample_request =
     \<lparr>req_method = ''POST'', req_url = ''http://testserver/webhook'',
      req_headers = [(''content-type'', ''application/json''), (''user-agent'', ''testclient'')],
      req_body = ''{...}'',
      req_json = JsonObject (scenario_input\<lparr>in_signal := Some ''Buy''\<rparr>)\<rparr>"

definition sample_clock :: clock_readings where
  "sample_clock =
     \<lparr>middleware_start = 100, start_time = 100, check_time = 100, end_time = 100,
      response_time = 100, middleware_end = 100\<rparr>"

text \<open>A stand-in for the HMAC-SHA256 hex digest, for evaluating the verifier.\<close>

definition sample_hexdigest :: "string \<Rightarrow> string \<Rightarrow> string" where
  "sample_hexdigest key payload = ''5d41402abc4b2a76b9719d911017c592''"

section \<open>Properties of the idempotency cache\<close>

lemma cache_key_cong:
  "ticker w' = ticker w \<Longrightarrow> signal w' = signal w \<Longrightarrow> time w' = time w \<Longrightarrow> cache_key w' = cache_key w"
  by (simp add: cache_key_def)

text \<open>Different triples can have the same key, since a ticker or a time may contain a colon.\<close>

lemma cache_key_not_injective:
  "cache_key (sample_webhook\<lparr>ticker := ''A'', time := ''Buy:x''\<rparr>) =
   cache_key (sample_webhook\<lparr>ticker := ''A:Buy'', time := ''x''\<rparr>)"
  by (simp add: cache_key_def sample_webhook_def)



lemma is_duplicate_message_hit:
  "map_of cache (cache_key w) = Some ts \<Longrightarrow> t - ts < real_of_int (cache_ttl s) \<Longrightarrow>
   is_duplicate_message s t w cache = (True, cache)"
  by (simp add: is_duplicate_message_def)


lemma is_duplicate_message_distinct:
  "distinct (map fst cache) \<Longrightarrow> distinct (map fst (snd (is_duplicate_message s t w cache)))"
  by (auto simp: is_duplicate_message_def distinct_update distinct_delete split: option.splits)



text \<open>
  Claim C8. When the key of the payload is in the cache with an age strictly below the
  TTL, the call reports a duplicate and returns the cache exactly as it was: the entry is
  not stamped again and no entry is added or removed.
\<close>

theorem is_duplicate_message_duplicate_frame:
  assumes "map_of cache (cache_key w) = Some ts"
    and "t - ts < real_of_int (cache_ttl s)"
  shows "is_duplicate_message s t w cache = (True, cache)"
  using assms by (rule is_duplicate_message_hit)

theorem is_duplicate_message_duplicate_frame_witness:
  "is_duplicate_message default_settings 1100 sample_webhook
     [(''ETHUSDT:Sell:t0'', 900), (cache_key sample_webhook, 1000)] =
   (True, [(''ETHUSDT:Sell:t0'', 900), (cache_key sample_webhook, 1000)])"
  by (rule is_duplicate_message_duplicate_frame [where ts = 1000])
     (simp_all add: default_settings_def cache_key_def sample_webhook_def)

section \<open>Properties of the payload validator\<close>

lemma new_TradingViewWebhook_fields:
  assumes "new_TradingViewWebhook j = Inr w"
  shows "ticker_field (in_ticker j) = Inr (ticker w)"
    and "signal_field (in_signal j) = Inr (signal w)"
    and "price_field (in_price j) = Inr (price w)"
    and "time_field (in_time j) = Inr (time w)"
    and "interval_field (in_interval j) = Inr (interval w)"
    and "chart_field (in_chart j) = Inr (chart w)"
  using assms by (auto simp: new_TradingViewWebhook_def split: sum.splits)

lemma signal_field_accepts:
  "signal_field x = Inr s \<longleftrightarrow> (x = Some ''Buy'' \<and> s = ''Buy'') \<or> (x = Some ''Sell'' \<and> s = ''Sell'')"
proof -
  have "capitalize ''Buy'' = ''Buy''" "capitalize ''Sell'' = ''Sell''"
    by code_simp+
  then show ?thesis
    by (auto simp: signal_field_def validate_signal_def split: option.splits)
qed

lemma round_half_even_nonneg: "0 \<le> x \<Longrightarrow> 0 \<le> round_half_even x"
  by (simp add: round_half_even_def Let_def)

lemma py_round_nonneg: "0 \<le> v \<Longrightarrow> 0 \<le> py_round v n"
  by (simp add: py_round_def round_half_even_nonneg)

lemma price_field_accepts:
  "price_field x = Inr p \<longleftrightarrow> (\<exists>v. x = Some v \<and> 0 < v \<and> p = py_round v 8)"
  by (auto simp: price_field_def validate_price_def split: option.splits)

lemma ticker_field_accepts:
  "ticker_field x = Inr t \<longleftrightarrow>
     (\<exists>v. x = Some v \<and> 1 \<le> length v \<and> length v \<le> 20 \<and> t = strip (upper v))"
  by (cases x) (auto simp: ticker_field_def validate_ticker_def Suc_le_eq)

text \<open>
  What holds of every accepted payload: the signal is \<^verbatim>\<open>Buy\<close> or \<^verbatim>\<open>Sell\<close>, the price
  that was sent is positive and the stored price is not negative, the ticker that was
  sent has between 1 and 20 characters.
\<close>

lemma new_TradingViewWebhook_accepted:
  assumes "new_TradingViewWebhook j = Inr w"
  shows "signal w = ''Buy'' \<or> signal w = ''Sell''"
    and "0 \<le> price w"
    and "\<exists>v. in_price j = Some v \<and> 0 < v"
    and "\<exists>v. in_ticker j = Some v \<and> v \<noteq> [] \<and> length v \<le> 20"
proof -
  from new_TradingViewWebhook_fields(2)[OF assms]
  show "signal w = ''Buy'' \<or> signal w = ''Sell''"
    by (auto simp: signal_field_accepts)
  from new_TradingViewWebhook_fields(3)[OF assms]
  obtain v where v: "in_price j = Some v" "0 < v" "price w = py_round v 8"
    by (auto simp: price_field_accepts)
  then show "0 \<le> price w"
    by (simp add: py_round_nonneg)
  from v show "\<exists>v. in_price j = Some v \<and> 0 < v"
    by simp
  from new_TradingViewWebhook_fields(1)[OF assms]
  show "\<exists>v. in_ticker j = Some v \<and> v \<noteq> [] \<and> length v \<le> 20"
    by (auto simp: ticker_field_accepts)
qed

text \<open>
  Claim C2, evaluated on the code. The positive price \<open>2\<^sup>-\<^sup>3\<^sup>0\<close> passes the constraint
  \<^verbatim>\<open>gt=0\<close> and the test \<^verbatim>\<open>v <= 0\<close> of \<^verbatim>\<open>validate_price\<close>, and is then rounded to 8
  places: the payload is accepted with price 0. The ticker of one space passes
  \<^verbatim>\<open>min_length=1\<close> and is then stripped: the payload is accepted with an empty ticker.
\<close>

theorem new_TradingViewWebhook_accepts_zero_price_and_empty_ticker:
  "new_TradingViewWebhook tiny_price_input =
     Inr \<lparr>ticker = ''BTCUSDT'', signal = ''Buy'', price = 0, time = ''2025-01-15T10:30:00Z'',
          interval = None, chart = None\<rparr> \<and>
   new_TradingViewWebhook blank_ticker_input =
     Inr \<lparr>ticker = [], signal = ''Sell'', price = 45000, time = ''2025-01-15T10:30:00Z'',
          interval = None, chart = None\<rparr>"
  by code_simp

text \<open>
  Claim C3, evaluated on the code. The pattern \<^verbatim>\<open>^(Buy|Sell)$\<close> of the field is checked
  on the signal as sent, before \<^verbatim>\<open>validate_signal\<close> capitalizes it: \<^verbatim>\<open>buy\<close>, \<^verbatim>\<open>BUY\<close> and
  \<^verbatim>\<open>sElL\<close> are rejected, although \<^verbatim>\<open>validate_signal\<close> would turn them into \<^verbatim>\<open>Buy\<close> and
  \<^verbatim>\<open>Sell\<close>.
\<close>

theorem signal_field_rejects_other_case:
  "signal_field (Some ''buy'') = Inl StringPatternMismatch \<and>
   signal_field (Some ''BUY'') = Inl StringPatternMismatch \<and>
   signal_field (Some ''sElL'') = Inl StringPatternMismatch \<and>
   validate_signal ''buy'' = ''Buy'' \<and> validate_signal ''BUY'' = ''Buy'' \<and>
   validate_signal ''sElL'' = ''Sell'' \<and>
   new_TradingViewWebhook scenario_input = Inl [(''signal'', StringPatternMismatch)]"
  by code_simp

section \<open>Properties of the message formatter\<close>

lemmas float_str_eval = float_str_def decimal8_def digits.simps pad_frac_def strip_zeros_def

lemma scenario_input_rejected:
  "new_TradingViewWebhook scenario_input = Inl [(''signal'', StringPatternMismatch)]"
  by code_simp

lemma scenario_input_capitalized_accepted:
  "new_TradingViewWebhook (scenario_input\<lparr>in_signal := Some ''Buy''\<rparr>) = Inr sample_webhook"
  by code_simp

text \<open>
  The formatter is a function of the validated payload alone (and of Python's rendering
  of the price) and produces the layout of the specification with HTML markup: the bold
  ticker, followed by the interval in parentheses exactly when the interval is present
  and not empty; the line of the italic signal and the price; the clock and the time; and
  the chart link as a last line exactly when the chart is present and not empty.
\<close>

lemma format_message_layout:
  "format_message str_float w = message_layout html_bold html_italic html_link str_float w"
  by (auto simp: format_message_def message_layout_def truthy_def html_bold_def html_italic_def
        html_link_def Let_def split: option.splits)

text \<open>
  For the payload with ticker \<^verbatim>\<open>BTCUSDT\<close>, signal \<^verbatim>\<open>Buy\<close>, price 45000.12345679 and
  interval \<^verbatim>\<open>1h\<close> the text is the three lines of the end-to-end scenario, with \<^verbatim>\<open><b>\<close>
  around the ticker and \<^verbatim>\<open><i>\<close> around the signal.
\<close>

lemma format_message_sample_webhook:
  "format_message float_str sample_webhook =
     ''<b>BTCUSDT</b>  (1h)'' @ [CHR 0x0A] @
     ''Signal: <i>Buy</i>  Price: 45000.12345679'' @ [CHR 0x0A] @
     clock_emoji @ '' 2025-01-15T10:30:00Z''"
  by (simp add: format_message_def sample_webhook_def truthy_def float_str_eval)

lemma message_layout_sample_webhook:
  "message_layout id id id float_str sample_webhook =
     ''BTCUSDT  (1h)'' @ [CHR 0x0A] @
     ''Signal: Buy  Price: 45000.12345679'' @ [CHR 0x0A] @
     clock_emoji @ '' 2025-01-15T10:30:00Z''"
  by (simp add: message_layout_def sample_webhook_def float_str_eval)

lemma format_message_with_chart:
  "format_message float_str (sample_webhook\<lparr>interval := Some [], chart := Some ''https://example.com/chart''\<rparr>) =
     ''<b>BTCUSDT</b>'' @ [CHR 0x0A] @
     ''Signal: <i>Buy</i>  Price: 45000.12345679'' @ [CHR 0x0A] @
     clock_emoji @ '' 2025-01-15T10:30:00Z'' @ [CHR 0x0A] @
     chart_emoji @ '' <a href='' @ [CHR 0x27] @ ''https://example.com/chart'' @ [CHR 0x27] @ ''>Chart</a>''"
  by (simp add: format_message_def sample_webhook_def truthy_def float_str_eval)

text \<open>
  Claim C7, evaluated on the code. The payload of the end-to-end scenario, with ticker
  \<^verbatim>\<open>btcusdt\<close>, signal \<^verbatim>\<open>buy\<close>, price 45000.123456789 and interval \<^verbatim>\<open>1h\<close>, is rejected by the
  validator for its signal, so no text is formatted for it; sent with the signal \<^verbatim>\<open>Buy\<close>
  it validates to \<open>sample_webhook\<close>, whose text is the one the claim gives.
\<close>

theorem format_message_scenario_rejected:
  "new_TradingViewWebhook scenario_input = Inl [(''signal'', StringPatternMismatch)] \<and>
   (case new_TradingViewWebhook scenario_input of
      Inl e \<Rightarrow> None
    | Inr w \<Rightarrow> Some (format_message float_str w)) = None \<and>
   (case new_TradingViewWebhook (scenario_input\<lparr>in_signal := Some ''Buy''\<rparr>) of
      Inl e \<Rightarrow> None
    | Inr w \<Rightarrow> Some (format_message float_str w)) =
     Some (''<b>BTCUSDT</b>  (1h)'' @ [CHR 0x0A] @
           ''Signal: <i>Buy</i>  Price: 45000.12345679'' @ [CHR 0x0A] @
           clock_emoji @ '' 2025-01-15T10:30:00Z'')"
  by (simp add: scenario_input_rejected scenario_input_capitalized_accepted
        format_message_sample_webhook)

section \<open>Properties of the rate-limit gate\<close>

lemma check_rate_limit_opens:
  assumes "case rate_limit_reset_time svc of None \<Rightarrow> True | Some r \<Rightarrow> r \<le> now"
  shows "check_rate_limit now woke svc =
           (None, \<lparr>request_count = 1, rate_limit_reset_time = Some (now + 1)\<rparr>)"
  using assms by (simp add: check_rate_limit_def)

lemma check_rate_limit_within:
  assumes "rate_limit_reset_time svc = Some r" and "now < r" and "request_count svc < 30"
  shows "check_rate_limit now woke svc =
           (None, \<lparr>request_count = request_count svc + 1, rate_limit_reset_time = Some r\<rparr>)"
  using assms by (simp add: check_rate_limit_def)

lemma check_rate_limit_full:
  assumes "rate_limit_reset_time svc = Some r" and "now < r" and "30 \<le> request_count svc"
  shows "check_rate_limit now woke svc =
           (Some (r - now), \<lparr>request_count = 1, rate_limit_reset_time = Some (woke + 1)\<rparr>)"
  using assms by (simp add: check_rate_limit_def)

lemma check_rate_limit_count_le:
  "request_count svc \<le> 30 \<Longrightarrow> request_count (snd (check_rate_limit now woke svc)) \<le> 30"
  by (auto simp: check_rate_limit_def Let_def split: option.splits)

lemma check_rate_limit_calls_append:
  "check_rate_limit_calls (xs @ ys) svc =
     (case check_rate_limit_calls xs svc of
        (sleeps, svc1) \<Rightarrow>
          (case check_rate_limit_calls ys svc1 of (sleeps', svc2) \<Rightarrow> (sleeps @ sleeps', svc2)))"
  by (induction xs arbitrary: svc) (auto split: prod.splits)

lemma check_rate_limit_calls_within:
  assumes "rate_limit_reset_time svc = Some r"
    and "request_count svc + length calls \<le> 30"
    and "\<forall>(now, woke) \<in> set calls. now < r"
  shows "check_rate_limit_calls calls svc =
           (replicate (length calls) None,
            \<lparr>request_count = request_count svc + length calls, rate_limit_reset_time = Some r\<rparr>)"
  using assms
proof (induction calls arbitrary: svc)
  case Nil
  then show ?case by simp
next
  case (Cons call calls)
  obtain now woke where call: "call = (now, woke)"
    by (cases call)
  let ?svc1 = "\<lparr>request_count = request_count svc + 1, rate_limit_reset_time = Some r\<rparr>"
  have step: "check_rate_limit now woke svc = (None, ?svc1)"
    using Cons.prems call by (intro check_rate_limit_within) auto
  have "check_rate_limit_calls calls ?svc1 =
          (replicate (length calls) None,
           \<lparr>request_count = request_count ?svc1 + length calls, rate_limit_reset_time = Some r\<rparr>)"
    using Cons.prems by (intro Cons.IH) auto
  with step call show ?case
    by simp
qed

text \<open>
  Claim C6. Take 31 calls of the gate of which the first, at time \<open>t\<close>, opens a window
  (no window yet, or the last one is over) and the 30 others happen before that window
  ends at \<open>t + 1\<close>. The first 30 calls return without sleeping. The 31st sleeps for the
  time that remains until \<open>t + 1\<close>, which is positive, and then starts a fresh window in
  which it is the first send.
\<close>

theorem check_rate_limit_31st_call_waits:
  assumes opens: "case rate_limit_reset_time svc of None \<Rightarrow> True | Some r \<Rightarrow> r \<le> t"
    and len: "length calls = 29"
    and within: "\<forall>(now, woke) \<in> set calls. now < t + 1"
    and last: "now31 < t + 1"
  shows "check_rate_limit_calls ((t, woke1) # calls) svc =
           (replicate 30 None, \<lparr>request_count = 30, rate_limit_reset_time = Some (t + 1)\<rparr>) \<and>
         check_rate_limit_calls ((t, woke1) # calls @ [(now31, woke31)]) svc =
           (replicate 30 None @ [Some (t + 1 - now31)],
            \<lparr>request_count = 1, rate_limit_reset_time = Some (woke31 + 1)\<rparr>) \<and>
         0 < t + 1 - now31"
proof -
  let ?svc1 = "\<lparr>request_count = 1, rate_limit_reset_time = Some (t + 1)\<rparr>"
  let ?svc30 = "\<lparr>request_count = 30, rate_limit_reset_time = Some (t + 1)\<rparr>"
  have first: "check_rate_limit t woke1 svc = (None, ?svc1)"
    using opens by (rule check_rate_limit_opens)
  have "check_rate_limit_calls calls ?svc1 =
          (replicate (length calls) None,
           \<lparr>request_count = request_count ?svc1 + length calls, rate_limit_reset_time = Some (t + 1)\<rparr>)"
    using len within by (intro check_rate_limit_calls_within) auto
  then have rest: "check_rate_limit_calls calls ?svc1 = (replicate 29 None, ?svc30)"
    by (simp add: len)
  have thirty: "check_rate_limit_calls ((t, woke1) # calls) svc = (replicate 30 None, ?svc30)"
  proof -
    have "replicate 30 None = (None :: real option) # replicate 29 None"
      by (simp add: numeral_eq_Suc)
    with first rest show ?thesis
      by simp
  qed
  have full: "check_rate_limit now31 woke31 ?svc30 =
          (Some (t + 1 - now31), \<lparr>request_count = 1, rate_limit_reset_time = Some (woke31 + 1)\<rparr>)"
    using last by (intro check_rate_limit_full) auto
  have "check_rate_limit_calls (((t, woke1) # calls) @ [(now31, woke31)]) svc =
          (replicate 30 None @ [Some (t + 1 - now31)],
           \<lparr>request_count = 1, rate_limit_reset_time = Some (woke31 + 1)\<rparr>)"
    unfolding check_rate_limit_calls_append using thirty full by simp
  with thirty last show ?thesis
    by simp
qed

theorem check_rate_limit_31st_call_waits_witness:
  "check_rate_limit_calls ((0, 0) # replicate 29 (1 / 2, 1 / 2) @ [(3 / 4, 1)]) new_TelegramService =
     (replicate 30 None @ [Some (1 / 4)], \<lparr>request_count = 1, rate_limit_reset_time = Some 2\<rparr>)"
  using check_rate_limit_31st_call_waits
    [where svc = new_TelegramService and t = 0 and calls = "replicate 29 (1 / 2, 1 / 2)"
       and ?now31.0 = "3 / 4" and ?woke31.0 = 1 and ?woke1.0 = 0]
  by (simp add: new_TelegramService_def)

section \<open>Properties of sending with retries\<close>

lemma after_simps [simp]:
  "fst (after evs r) = fst r"
  "fst (snd (after evs r)) = fst (snd r)"
  "snd (snd (after evs r)) = evs @ snd (snd r)"
  by (simp_all add: after_def split: prod.splits)

lemma backoff_delays_simps [simp]:
  "backoff_delays [] = []"
  "backoff_delays (evs @ evs') = backoff_delays evs @ backoff_delays evs'"
  "backoff_delays (BackoffSleep d # evs) = d # backoff_delays evs"
  "backoff_delays (PostAttempt a # evs) = backoff_delays evs"
  "backoff_delays (RateLimitSleep d # evs) = backoff_delays evs"
  "backoff_delays (RetryAfterSleep n # evs) = backoff_delays evs"
  by (simp_all add: backoff_delays_def)

lemma post_attempts_simps [simp]:
  "post_attempts [] = []"
  "post_attempts (evs @ evs') = post_attempts evs @ post_attempts evs'"
  "post_attempts (BackoffSleep d # evs) = post_attempts evs"
  "post_attempts (PostAttempt a # evs) = a # post_attempts evs"
  "post_attempts (RateLimitSleep d # evs) = post_attempts evs"
  "post_attempts (RetryAfterSleep n # evs) = post_attempts evs"
  by (simp_all add: post_attempts_def)

lemma attempt_prefix_simps [simp]:
  "backoff_delays (attempt_prefix env a svc) = []"
  "post_attempts (attempt_prefix env a svc) = [a]"
  by (simp_all add: attempt_prefix_def split: option.splits)

lemma send_attempts_Cons:
  "send_attempts s env (a # rest) svc =
     (case attempt_step s a (snd (snd (env a))) of
        Return result \<Rightarrow> (Inr result, after_gate env a svc, attempt_prefix env a svc)
      | Raise e \<Rightarrow> (Inl e, after_gate env a svc, attempt_prefix env a svc)
      | SleepContinue n \<Rightarrow>
          after (attempt_prefix env a svc @ [RetryAfterSleep n])
            (send_attempts s env rest (after_gate env a svc))
      | Caught \<Rightarrow>
          if int a < int (tg_retry_attempts s) - 1
          then after (attempt_prefix env a svc @ [BackoffSleep (tg_retry_delay s * tg_retry_backoff s ^ a)])
                 (send_attempts s env rest (after_gate env a svc))
          else after (attempt_prefix env a svc) (send_attempts s env rest (after_gate env a svc)))"
proof -
  obtain now woke r where e: "env a = (now, woke, r)"
    by (cases "env a")
  obtain slept svc1 where g: "check_rate_limit now woke svc = (slept, svc1)"
    by (cases "check_rate_limit now woke svc")
  show ?thesis
    by (simp add: e g attempt_prefix_def after_gate_def Let_def split: step.splits)
qed

declare send_attempts.simps(2) [simp del]

lemma send_attempts_Return:
  assumes "attempt_step s a (snd (snd (env a))) = Return result"
  shows "send_attempts s env (a # rest) svc = (Inr result, after_gate env a svc, attempt_prefix env a svc)"
  using assms by (simp add: send_attempts_Cons)

lemma send_attempts_Raise:
  assumes "attempt_step s a (snd (snd (env a))) = Raise e"
  shows "send_attempts s env (a # rest) svc = (Inl e, after_gate env a svc, attempt_prefix env a svc)"
  using assms by (simp add: send_attempts_Cons)

lemma send_attempts_SleepContinue:
  assumes "attempt_step s a (snd (snd (env a))) = SleepContinue n"
  shows "send_attempts s env (a # rest) svc =
           after (attempt_prefix env a svc @ [RetryAfterSleep n])
             (send_attempts s env rest (after_gate env a svc))"
  using assms by (simp add: send_attempts_Cons)

lemma send_attempts_Caught:
  assumes "attempt_step s a (snd (snd (env a))) = Caught"
  shows "send_attempts s env (a # rest) svc =
           (if int a < int (tg_retry_attempts s) - 1
            then after (attempt_prefix env a svc @ [BackoffSleep (tg_retry_delay s * tg_retry_backoff s ^ a)])
                   (send_attempts s env rest (after_gate env a svc))
            else after (attempt_prefix env a svc) (send_attempts s env rest (after_gate env a svc)))"
  using assms by (simp add: send_attempts_Cons)

lemma attempt_step_transient:
  assumes "transient r"
  shows "int a \<noteq> int (tg_retry_attempts s) - 1 \<Longrightarrow> attempt_step s a r = Caught"
    and "int a = int (tg_retry_attempts s) - 1 \<Longrightarrow> \<exists>m. attempt_step s a r = Raise (TelegramError m)"
  using assms by (auto simp: transient_def attempt_step_def split: post_result.splits)

lemma attempt_step_delivered:
  "delivered r result \<Longrightarrow> attempt_step s a r = Return result"
  by (auto simp: delivered_def attempt_step_def split: post_result.splits)

lemma attempt_step_http_error:
  assumes "status_code response \<noteq> 200" and "status_code response \<noteq> 429"
  shows "attempt_step s a (Responded response) =
           Raise (TelegramError (HttpError (status_code response) (body_text response)))"
  using assms by (simp add: attempt_step_def)

text \<open>However the attempts end, there is at most one POST for each of them.\<close>

lemma send_attempts_posts_le:
  "length (post_attempts (snd (snd (send_attempts s env as svc)))) \<le> length as"
proof (induction as arbitrary: svc)
  case Nil
  then show ?case by simp
next
  case (Cons a as)
  show ?case
  proof (cases "attempt_step s a (snd (snd (env a)))")
    case (Return result)
    then show ?thesis by (simp add: send_attempts_Return)
  next
    case (Raise e)
    then show ?thesis by (simp add: send_attempts_Raise)
  next
    case (SleepContinue n)
    with Cons.IH [of "after_gate env a svc"] show ?thesis
      by (simp add: send_attempts_SleepContinue)
  next
    case Caught
    with Cons.IH [of "after_gate env a svc"] show ?thesis
      by (simp add: send_attempts_Caught)
  qed
qed

lemma send_message_with_retry_posts_le:
  "length (post_attempts (snd (snd (send_message_with_retry s env svc)))) \<le> tg_retry_attempts s"
  using send_attempts_posts_le [of s env "[0..<tg_retry_attempts s]" svc]
  by (simp add: send_message_with_retry_def)

text \<open>A send returns a result only when the POST of some attempt succeeded.\<close>

lemma send_attempts_Inr:
  "fst (send_attempts s env as svc) = Inr result \<Longrightarrow> \<exists>a \<in> set as. delivered (snd (snd (env a))) result"
proof (induction as arbitrary: svc)
  case Nil
  then show ?case by simp
next
  case (Cons a as)
  show ?case
  proof (cases "attempt_step s a (snd (snd (env a)))")
    case (Return r)
    with Cons.prems have "r = result"
      by (simp add: send_attempts_Return)
    with Return have "delivered (snd (snd (env a))) result"
      by (auto simp: attempt_step_def delivered_def Let_def
            split: post_result.splits sum.splits if_splits retry_after_header.splits)
    then show ?thesis by simp
  next
    case (Raise e)
    with Cons.prems show ?thesis by (simp add: send_attempts_Raise)
  next
    case (SleepContinue n)
    with Cons.prems have "fst (send_attempts s env as (after_gate env a svc)) = Inr result"
      by (simp add: send_attempts_SleepContinue)
    with Cons.IH show ?thesis by auto
  next
    case Caught
    with Cons.prems have "fst (send_attempts s env as (after_gate env a svc)) = Inr result"
      by (simp add: send_attempts_Caught split: if_splits)
    with Cons.IH show ?thesis by auto
  qed
qed

lemma upt_3: "[0..<3] = [0, 1, 2]"
  by (simp add: upt_rec numeral_eq_Suc)

lemma two_transient_attempts:
  assumes n: "tg_retry_attempts s = 3"
    and f0: "transient (snd (snd (env 0)))"
    and f1: "transient (snd (snd (env 1)))"
  shows "send_message_with_retry s env svc =
           after (attempt_prefix env 0 svc @ [BackoffSleep (tg_retry_delay s * tg_retry_backoff s ^ 0)])
             (after (attempt_prefix env 1 (after_gate env 0 svc) @
                       [BackoffSleep (tg_retry_delay s * tg_retry_backoff s ^ 1)])
                (send_attempts s env [2] (after_gate env 1 (after_gate env 0 svc))))"
proof -
  have c0: "attempt_step s 0 (snd (snd (env 0))) = Caught"
    using f0 by (rule attempt_step_transient(1)) (simp add: n)
  have c1: "attempt_step s 1 (snd (snd (env 1))) = Caught"
    using f1 by (rule attempt_step_transient(1)) (simp add: n)
  have start: "send_message_with_retry s env svc = send_attempts s env [0, 1, 2] svc"
    by (simp add: send_message_with_retry_def n upt_3)
  have step0: "send_attempts s env [0, 1, 2] svc =
      after (attempt_prefix env 0 svc @ [BackoffSleep (tg_retry_delay s * tg_retry_backoff s ^ 0)])
        (send_attempts s env [1, 2] (after_gate env 0 svc))"
    using send_attempts_Caught [where s = s and env = env and a = 0, OF c0] by (simp add: n)
  have step1: "send_attempts s env [1, 2] (after_gate env 0 svc) =
      after (attempt_prefix env 1 (after_gate env 0 svc) @
               [BackoffSleep (tg_retry_delay s * tg_retry_backoff s ^ 1)])
        (send_attempts s env [2] (after_gate env 1 (after_gate env 0 svc)))"
    using send_attempts_Caught [where s = s and env = env and a = 1, OF c1] by (simp add: n)
  show ?thesis
    unfolding start step0 step1 ..
qed

text \<open>
  Claim C4. With 3 attempts configured and a timeout or connection error on the first
  two: if the third POST succeeds, the send returns its result after exactly two backoff
  sleeps, of \<open>delay * backoff ^ 0\<close> and \<open>delay * backoff ^ 1\<close> seconds, and three POSTs; if
  the third POST fails in the same way, the send raises a \<^verbatim>\<open>TelegramError\<close> after the
  same two backoff sleeps and three POSTs. Whatever the transport does, a send never
  makes more POSTs than the configured number of attempts.
\<close>

theorem send_message_with_retry_three_attempts:
  assumes n: "tg_retry_attempts s = 3"
    and f0: "transient (snd (snd (env 0)))"
    and f1: "transient (snd (snd (env 1)))"
  shows "(delivered (snd (snd (env 2))) result \<longrightarrow>
            fst (send_message_with_retry s env svc) = Inr result \<and>
            backoff_delays (snd (snd (send_message_with_retry s env svc))) =
              [tg_retry_delay s * tg_retry_backoff s ^ 0, tg_retry_delay s * tg_retry_backoff s ^ 1] \<and>
            post_attempts (snd (snd (send_message_with_retry s env svc))) = [0, 1, 2]) \<and>
         (transient (snd (snd (env 2))) \<longrightarrow>
            (\<exists>m. fst (send_message_with_retry s env svc) = Inl (TelegramError m)) \<and>
            backoff_delays (snd (snd (send_message_with_retry s env svc))) =
              [tg_retry_delay s * tg_retry_backoff s ^ 0, tg_retry_delay s * tg_retry_backoff s ^ 1] \<and>
            post_attempts (snd (snd (send_message_with_retry s env svc))) = [0, 1, 2]) \<and>
         length (post_attempts (snd (snd (send_message_with_retry s env' svc')))) \<le> 3"
proof (intro conjI impI)
  note two = two_transient_attempts [OF n f0 f1]
  {
    assume "delivered (snd (snd (env 2))) result"
    then have r: "attempt_step s 2 (snd (snd (env 2))) = Return result"
      by (rule attempt_step_delivered)
    show "fst (send_message_with_retry s env svc) = Inr result"
      by (simp add: two send_attempts_Return [where s = s and env = env and a = 2, OF r])
    show "backoff_delays (snd (snd (send_message_with_retry s env svc))) =
            [tg_retry_delay s * tg_retry_backoff s ^ 0, tg_retry_delay s * tg_retry_backoff s ^ 1]"
      by (simp add: two send_attempts_Return [where s = s and env = env and a = 2, OF r])
    show "post_attempts (snd (snd (send_message_with_retry s env svc))) = [0, 1, 2]"
      by (simp add: two send_attempts_Return [where s = s and env = env and a = 2, OF r])
  }
  {
    assume "transient (snd (snd (env 2)))"
    then obtain m where r: "attempt_step s 2 (snd (snd (env 2))) = Raise (TelegramError m)"
      using attempt_step_transient(2) [of "snd (snd (env 2))" 2 s] by (auto simp: n)
    show "\<exists>m. fst (send_message_with_retry s env svc) = Inl (TelegramError m)"
      by (simp add: two send_attempts_Raise [where s = s and env = env and a = 2, OF r])
    show "backoff_delays (snd (snd (send_message_with_retry s env svc))) =
            [tg_retry_delay s * tg_retry_backoff s ^ 0, tg_retry_delay s * tg_retry_backoff s ^ 1]"
      by (simp add: two send_attempts_Raise [where s = s and env = env and a = 2, OF r])
    show "post_attempts (snd (snd (send_message_with_retry s env svc))) = [0, 1, 2]"
      by (simp add: two send_attempts_Raise [where s = s and env = env and a = 2, OF r])
  }
  show "length (post_attempts (snd (snd (send_message_with_retry s env' svc')))) \<le> 3"
    using send_message_with_retry_posts_le [of s env' svc'] by (simp add: n)
qed

theorem send_message_with_retry_three_attempts_witness:
  "fst (send_message_with_retry default_settings fails_twice_env new_TelegramService) =
     Inr \<lparr>ok = True, description = None, message_id = Some 123\<rparr> \<and>
   backoff_delays (snd (snd (send_message_with_retry default_settings fails_twice_env new_TelegramService))) =
     [1, 2] \<and>
   post_attempts (snd (snd (send_message_with_retry default_settings fails_twice_env new_TelegramService))) =
     [0, 1, 2] \<and>
   fst (send_message_with_retry default_settings always_fails_env new_TelegramService) =
     Inl (TelegramError (TimeoutAfter 3)) \<and>
   backoff_delays (snd (snd (send_message_with_retry default_settings always_fails_env new_TelegramService))) =
     [1, 2] \<and>
   post_attempts (snd (snd (send_message_with_retry default_settings always_fails_env new_TelegramService))) =
     [0, 1, 2]"
proof -
  have raised: "fst (send_message_with_retry default_settings always_fails_env new_TelegramService) =
      Inl (TelegramError (TimeoutAfter 3))"
    by code_simp
  from send_message_with_retry_three_attempts
         [where s = default_settings and env = fails_twice_env and svc = new_TelegramService
            and result = "\<lparr>ok = True, description = None, message_id = Some 123\<rparr>"]
       send_message_with_retry_three_attempts
         [where s = default_settings and env = always_fails_env and svc = new_TelegramService]
       raised
  show ?thesis
    by (simp add: default_settings_def fails_twice_env_def always_fails_env_def transient_def
          delivered_def ok_response_def)
qed

text \<open>
  Claim C5 as stated fails: with 3 attempts configured, a reply with status 500 to the
  first POST makes the send raise at once, after one POST and without any backoff sleep,
  although two attempts remain.
\<close>

theorem send_message_with_retry_http_error_counterexample:
  "tg_retry_attempts default_settings = 3 \<and>
   send_message_with_retry default_settings server_error_env new_TelegramService =
     (Inl (TelegramError (HttpError 500 ''Internal Server Error'')),
      \<lparr>request_count = 1, rate_limit_reset_time = Some 1\<rparr>, [PostAttempt 0])"
  by code_simp

lemma send_attempts_http_error:
  assumes "snd (snd (env a)) = Responded response"
    and "status_code response \<noteq> 200" and "status_code response \<noteq> 429"
  shows "send_attempts s env (a # rest) svc =
           (Inl (TelegramError (HttpError (status_code response) (body_text response))),
            after_gate env a svc, attempt_prefix env a svc)"
proof -
  have "attempt_step s a (snd (snd (env a))) =
          Raise (TelegramError (HttpError (status_code response) (body_text response)))"
    using assms by (simp add: attempt_step_http_error)
  then show ?thesis
    by (rule send_attempts_Raise)
qed

lemma send_attempts_transient_then_http_error:
  assumes "a < tg_retry_attempts s"
    and "i \<le> a"
    and "\<forall>j. i \<le> j \<and> j < a \<longrightarrow> transient (snd (snd (env j)))"
    and "snd (snd (env a)) = Responded response"
    and "status_code response \<noteq> 200" and "status_code response \<noteq> 429"
  shows "fst (send_attempts s env [i..<tg_retry_attempts s] svc) =
           Inl (TelegramError (HttpError (status_code response) (body_text response))) \<and>
         post_attempts (snd (snd (send_attempts s env [i..<tg_retry_attempts s] svc))) = [i..<Suc a] \<and>
         backoff_delays (snd (snd (send_attempts s env [i..<tg_retry_attempts s] svc))) =
           map (\<lambda>j. tg_retry_delay s * tg_retry_backoff s ^ j) [i..<a]"
  using assms(2,3)
proof (induction "a - i" arbitrary: i svc)
  case 0
  then have "i = a" by simp
  moreover have "[a..<tg_retry_attempts s] = a # [Suc a..<tg_retry_attempts s]"
    using assms(1) by (simp add: upt_conv_Cons)
  ultimately show ?case
    using send_attempts_http_error
            [where env = env and a = a and response = response and s = s
               and rest = "[Suc a..<tg_retry_attempts s]" and svc = svc, OF assms(4,5,6)]
    by simp
next
  case (Suc d)
  then have lt: "i < a" by simp
  with assms(1) have upt: "[i..<tg_retry_attempts s] = i # [Suc i..<tg_retry_attempts s]"
    by (simp add: upt_conv_Cons)
  have "transient (snd (snd (env i)))"
    using Suc.prems lt by simp
  then have "attempt_step s i (snd (snd (env i))) = Caught"
    using lt assms(1) by (intro attempt_step_transient(1)) auto
  then have unfold: "send_attempts s env (i # [Suc i..<tg_retry_attempts s]) svc =
      after (attempt_prefix env i svc @ [BackoffSleep (tg_retry_delay s * tg_retry_backoff s ^ i)])
        (send_attempts s env [Suc i..<tg_retry_attempts s] (after_gate env i svc))"
    using lt assms(1) by (simp add: send_attempts_Caught)
  have IH: "fst (send_attempts s env [Suc i..<tg_retry_attempts s] (after_gate env i svc)) =
           Inl (TelegramError (HttpError (status_code response) (body_text response))) \<and>
         post_attempts (snd (snd (send_attempts s env [Suc i..<tg_retry_attempts s] (after_gate env i svc)))) =
           [Suc i..<Suc a] \<and>
         backoff_delays (snd (snd (send_attempts s env [Suc i..<tg_retry_attempts s] (after_gate env i svc)))) =
           map (\<lambda>j. tg_retry_delay s * tg_retry_backoff s ^ j) [Suc i..<a]"
    using Suc.hyps(2) Suc.prems lt by (intro Suc.hyps(1)) auto
  have "[i..<Suc a] = i # [Suc i..<Suc a]" "[i..<a] = i # [Suc i..<a]"
    using lt by (simp_all add: upt_conv_Cons)
  with IH show ?case
    unfolding upt unfold by simp
qed

text \<open>
  Claim C5, amended. When a POST is answered with a status other than 200 and 429, the
  send raises a \<^verbatim>\<open>TelegramError\<close> carrying the status and the text of the reply at once,
  on whichever attempt this happens, the last or an earlier one: no backoff sleep follows
  and no further POST is made. This is stated for a send whose earlier attempts failed
  with a timeout or connection error (its POSTs are those up to the rejected one and its
  backoff sleeps those of the earlier attempts), and for the loop entered at any attempt
  \<open>a\<close> in any state (it ends with the POST of \<open>a\<close>).
\<close>

theorem send_message_with_retry_http_error_raises:
  assumes "a < tg_retry_attempts s"
    and "\<forall>j < a. transient (snd (snd (env j)))"
    and "snd (snd (env a)) = Responded response"
    and "status_code response \<noteq> 200" and "status_code response \<noteq> 429"
  shows "fst (send_message_with_retry s env svc) =
           Inl (TelegramError (HttpError (status_code response) (body_text response))) \<and>
         post_attempts (snd (snd (send_message_with_retry s env svc))) = [0..<Suc a] \<and>
         backoff_delays (snd (snd (send_message_with_retry s env svc))) =
           map (\<lambda>j. tg_retry_delay s * tg_retry_backoff s ^ j) [0..<a] \<and>
         send_attempts s env (a # rest) svc' =
           (Inl (TelegramError (HttpError (status_code response) (body_text response))),
            after_gate env a svc', attempt_prefix env a svc')"
proof -
  have loop: "send_attempts s env (a # rest) svc' =
           (Inl (TelegramError (HttpError (status_code response) (body_text response))),
            after_gate env a svc', attempt_prefix env a svc')"
    using assms(3,4,5) by (rule send_attempts_http_error)
  have "fst (send_attempts s env [0..<tg_retry_attempts s] svc) =
           Inl (TelegramError (HttpError (status_code response) (body_text response))) \<and>
         post_attempts (snd (snd (send_attempts s env [0..<tg_retry_attempts s] svc))) = [0..<Suc a] \<and>
         backoff_delays (snd (snd (send_attempts s env [0..<tg_retry_attempts s] svc))) =
           map (\<lambda>j. tg_retry_delay s * tg_retry_backoff s ^ j) [0..<a]"
    using assms by (intro send_attempts_transient_then_http_error) auto
  with loop show ?thesis
    by (simp add: send_message_with_retry_def)
qed

theorem send_message_with_retry_http_error_raises_witness:
  "fst (send_message_with_retry default_settings server_error_env new_TelegramService) =
     Inl (TelegramError (HttpError 500 ''Internal Server Error'')) \<and>
   post_attempts (snd (snd (send_message_with_retry default_settings server_error_env new_TelegramService))) = [0] \<and>
   backoff_delays (snd (snd (send_message_with_retry default_settings server_error_env new_TelegramService))) = []"
  using send_message_with_retry_http_error_raises
    [where s = default_settings and env = server_error_env and a = 0
       and response = server_error_response and svc = new_TelegramService]
  by (simp add: default_settings_def server_error_env_def server_error_response_def)

section \<open>Properties of the signature verifier\<close>

text \<open>
  Claim C10. The verifier never returns \<^verbatim>\<open>False\<close>: it returns \<^verbatim>\<open>True\<close> or raises a
  \<^verbatim>\<open>SignatureError\<close>. It returns \<^verbatim>\<open>True\<close> exactly when the signature is not empty, the
  secret is configured and the comparison of the hex digest with the signature succeeds.
\<close>

theorem verify_webhook_signature_never_False:
  "verify_webhook_signature hexdigest s payload sig \<noteq> Inr False \<and>
   (verify_webhook_signature hexdigest s payload sig = Inr True \<or>
    (\<exists>m. verify_webhook_signature hexdigest s payload sig = Inl (SignatureError m))) \<and>
   (verify_webhook_signature hexdigest s payload sig = Inr True) =
     (sig \<noteq> [] \<and> tv_webhook_secret s \<noteq> [] \<and>
      compare_digest (hexdigest (tv_webhook_secret s) payload) sig = Inr True)"
  by (auto simp: verify_webhook_signature_def Let_def split: sum.splits)

theorem verify_webhook_signature_never_False_witness:
  "verify_webhook_signature sample_hexdigest default_settings ''body'' ''5d41402abc4b2a76b9719d911017c592'' =
     Inr True \<and>
   verify_webhook_signature sample_hexdigest default_settings ''body'' ''invalid_signature'' \<noteq> Inr False \<and>
   verify_webhook_signature sample_hexdigest default_settings ''body'' [] \<noteq> Inr False"
proof -
  have same: "compare_digest
                (sample_hexdigest (tv_webhook_secret default_settings) ''body'')
                ''5d41402abc4b2a76b9719d911017c592'' = Inr True"
    by code_simp
  have secret: "tv_webhook_secret default_settings \<noteq> []"
    by (simp add: default_settings_def)
  from verify_webhook_signature_never_False
         [of sample_hexdigest default_settings "''body''" "''5d41402abc4b2a76b9719d911017c592''"]
       verify_webhook_signature_never_False
         [of sample_hexdigest default_settings "''body''" "''invalid_signature''"]
       verify_webhook_signature_never_False
         [of sample_hexdigest default_settings "''body''" "[]"]
       same secret
  show ?thesis
    by simp
qed

section \<open>Properties of the request handler\<close>

lemma find_filter:
  "(\<And>x. P x \<Longrightarrow> Q x) \<Longrightarrow> find P (filter Q xs) = find P xs"
  by (induction xs) auto

lemma headers_get_without_signature:
  assumes "lower name \<noteq> lower ''X-Signature''"
  shows "headers_get (without_signature hs) name = headers_get hs name"
proof -
  have "find (\<lambda>(k, v). lower k = lower name) (filter (\<lambda>(k, v). lower k \<noteq> lower ''X-Signature'') hs) =
        find (\<lambda>(k, v). lower k = lower name) hs"
    using assms by (intro find_filter) auto
  then show ?thesis
    by (simp add: headers_get_def without_signature_def)
qed

lemma headers_get_cong:
  assumes "without_signature hs' = without_signature hs"
    and "lower name \<noteq> lower ''X-Signature''"
  shows "headers_get hs' name = headers_get hs name"
  using assms headers_get_without_signature [of name hs'] headers_get_without_signature [of name hs]
  by simp

lemma request_id_header_name: "lower ''X-Request-ID'' \<noteq> lower ''X-Signature''"
  by code_simp

text \<open>The response and the scheduled tasks of the handler, read off its definition.\<close>

lemma receive_tradingview_webhook_response:
  "fst (receive_tradingview_webhook s cid clock cache r) =
     (case req_json r of
        InvalidJson \<Rightarrow> HTTPException 400 InvalidJsonPayload
      | NotAMapping \<Rightarrow> HTTPException 422 (InvalidWebhookData NotMapping)
      | JsonObject d \<Rightarrow>
          (case new_TradingViewWebhook d of
             Inl errors \<Rightarrow> HTTPException 422 (InvalidWebhookData (FieldErrors errors))
           | Inr w \<Rightarrow>
               JSONResponse 202
                 \<lparr>status = ''accepted'', message = Some ''Webhook received and processing'',
                  request_id = Some cid, timestamp = Some (response_time clock)\<rparr>
                 [(''X-Request-ID'', cid)]))"
  by (simp add: receive_tradingview_webhook_def Let_def split: json_data.splits sum.splits)

lemma receive_tradingview_webhook_tasks:
  "fst (snd (receive_tradingview_webhook s cid clock cache r)) =
     (case req_json r of
        JsonObject d \<Rightarrow>
          (case new_TradingViewWebhook d of
             Inl errors \<Rightarrow> []
           | Inr w \<Rightarrow> [ProcessWebhookBackground w cid] @ (if 100 < length cache then [CleanupCache] else []))
      | _ \<Rightarrow> [])"
  by (simp add: receive_tradingview_webhook_def Let_def split: json_data.splits sum.splits)

lemma request_middleware_response:
  "fst (request_middleware s uuid4 clock cache r) =
     (fst (receive_tradingview_webhook s (headers_get_default (req_headers r) ''X-Request-ID'' uuid4) clock cache r),
      headers_get_default (req_headers r) ''X-Request-ID'' uuid4,
      middleware_end clock - middleware_start clock)"
  by (simp add: request_middleware_def Let_def split: prod.splits)

lemma request_middleware_tasks:
  "fst (snd (request_middleware s uuid4 clock cache r)) =
     fst (snd (receive_tradingview_webhook s (headers_get_default (req_headers r) ''X-Request-ID'' uuid4)
                 clock cache r))"
  by (simp add: request_middleware_def Let_def split: prod.splits)

text \<open>
  Claim C9. Two requests that agree in everything but their \<^verbatim>\<open>X-Signature\<close> headers get
  the same result from the handler (the same status code and the same body) and the same
  background tasks are scheduled for them; the same holds with the middleware around the
  handler, which adds the response headers. The handler reads the signature only to log
  whether one was present.
\<close>

theorem response_independent_of_signature:
  assumes "req_json r' = req_json r"
    and "req_method r' = req_method r" and "req_url r' = req_url r" and "req_body r' = req_body r"
    and "without_signature (req_headers r') = without_signature (req_headers r)"
  shows "fst (receive_tradingview_webhook s cid clock cache r') =
           fst (receive_tradingview_webhook s cid clock cache r) \<and>
         fst (snd (receive_tradingview_webhook s cid clock cache r')) =
           fst (snd (receive_tradingview_webhook s cid clock cache r)) \<and>
         fst (request_middleware s uuid4 clock cache r') = fst (request_middleware s uuid4 clock cache r) \<and>
         fst (snd (request_middleware s uuid4 clock cache r')) =
           fst (snd (request_middleware s uuid4 clock cache r))"
proof -
  have id: "headers_get_default (req_headers r') ''X-Request-ID'' uuid4 =
            headers_get_default (req_headers r) ''X-Request-ID'' uuid4"
    using headers_get_cong [OF assms(5) request_id_header_name]
    by (simp add: headers_get_default_def)
  show ?thesis
    by (simp add: request_middleware_response request_middleware_tasks
          receive_tradingview_webhook_response receive_tradingview_webhook_tasks id assms(1))
qed

theorem response_independent_of_signature_witness:
  "fst (request_middleware default_settings ''id-1'' sample_clock []
          (sample_request\<lparr>req_headers := (''X-Signature'', ''invalid_signature'') # req_headers sample_request\<rparr>)) =
   fst (request_middleware default_settings ''id-1'' sample_clock [] sample_request) \<and>
   result_status (fst (fst (request_middleware default_settings ''id-1'' sample_clock [] sample_request))) = 202"
proof -
  have hs: "without_signature
              (req_headers (sample_request\<lparr>req_headers := (''X-Signature'', ''invalid_signature'') # req_headers sample_request\<rparr>)) =
            without_signature (req_headers sample_request)"
    by code_simp
  have accepted: "result_status (fst (fst (request_middleware default_settings ''id-1'' sample_clock [] sample_request))) = 202"
    by (simp add: request_middleware_response receive_tradingview_webhook_response sample_request_def
          scenario_input_capitalized_accepted result_status_def)
  from response_independent_of_signature
         [where r = sample_request
            and r' = "sample_request\<lparr>req_headers := (''X-Signature'', ''invalid_signature'') # req_headers sample_request\<rparr>"
            and s = default_settings and ?uuid4.0 = "''id-1''" and clock = sample_clock and cache = "[]",
          OF _ _ _ _ hs]
       accepted
  show ?thesis
    by simp
qed

end
